theory Spec2Isabelle
  imports Complex_Main
begin

section \<open>The signal generator of BinPy (analog/sig\_gen.py)\<close>

text \<open>
  The class \<^verbatim>\<open>SignalGenerator\<close> is embedded as a record of its attributes, its setters
  as functions from the object and the argument to an outcome, its properties as
  functions that may fail, and the body of \<^verbatim>\<open>run\<close> as a function of the object, the
  clock reading and the local variables of the loop.

  Conventions of the embedding:
  \<^item> Python 3 semantics.
  \<^item> A Python float is a real number: rounding, overflow and NaN are left out. The one
    value outside the reals that the code itself creates, \<^verbatim>\<open>float("inf")\<close> for the time
    period of frequency 0, is the constructor \<open>Infinite\<close> of the type \<open>period\<close>. So the
    setters and the loop are described for arguments that \<^verbatim>\<open>float()\<close> converts exactly,
    with every operation taken in exact arithmetic.
  \<^item> Lines 524 to 535 of \<^verbatim>\<open>run\<close> (the Triangular and Sawtooth waveforms) compute a value
    that depends on rounding; they are embedded a second time in double precision
    (\<open>synthesize_fold_double\<close>).
  \<^item> An attribute that has not been assigned yet is \<open>None\<close>; reading it raises
    \<^verbatim>\<open>AttributeError\<close>.
  \<^item> An exception is a value: a setter yields \<open>Raises e s\<close>, with the object \<open>s\<close> as the
    raise leaves it, or \<open>Returns s\<close>.
\<close>

subsection \<open>Values and exceptions\<close>

datatype num = PInt int | PFloat real

text \<open>
  The arguments a caller can pass: a number, a bool, a list or a tuple of numbers, or a
  value of any other type (\<open>POther\<close>: a string, \<^verbatim>\<open>None\<close>, ...).
\<close>

datatype pyval = Num num | PBool bool | PList "num list" | PTuple "num list" | POther

datatype error =
    Exception
  | AttributeError
  | TypeError
  | ValueError
  | ZeroDivisionError
  | OverflowError
  | UnboundLocalError

fun val :: "num \<Rightarrow> real" where
  "val (PInt i) = of_int i"
| "val (PFloat r) = r"

text \<open>\<^verbatim>\<open>type(x) in [int, float]\<close>: a bool is of type bool, so it does not pass.\<close>

fun int_or_float :: "pyval \<Rightarrow> real option" where
  "int_or_float (Num n) = Some (val n)"
| "int_or_float _ = None"

text \<open>
  The number a value is equal to under \<^verbatim>\<open>==\<close> (used by \<^verbatim>\<open>in range(6)\<close> and
  \<^verbatim>\<open>in [0, 1, 2]\<close>): \<^verbatim>\<open>True == 1\<close> and \<^verbatim>\<open>2.0 == 2\<close> hold in Python.
\<close>

fun py_number :: "pyval \<Rightarrow> real option" where
  "py_number (Num n) = Some (val n)"
| "py_number (PBool b) = Some (if b then 1 else 0)"
| "py_number _ = None"

text \<open>\<^verbatim>\<open>math.log10\<close> raises \<^verbatim>\<open>ValueError\<close> (math domain error) outside the positive reals.\<close>

definition log10 :: "real \<Rightarrow> error + real" where
  "log10 x = (if x \<le> 0 then Inl ValueError else Inr (log 10 x))"

subsection \<open>The object\<close>

datatype period = Finite real | Infinite

text \<open>
  Modelled from the spec: the Bus collaborator is not part of the source file; a bus is
  the level carried by each of its terminals (one for \<^verbatim>\<open>enable\<close>, two for \<^verbatim>\<open>mod_ip\<close>), and
  a fresh bus carries 0. The output bus is written only, so its writes are events of
  the trace of \<^verbatim>\<open>run\<close> (below) and it has no field here.
\<close>

record signal_generator =
  enable :: real
  mod_ip :: "real \<times> real"
  priv_enable :: "bool option"
  priv_offset :: "real option"
  priv_mod_type :: "real option"
  priv_type :: "real option"
  priv_frequency :: "real option"
  priv_frequency_range :: "(real \<times> real) option"
  priv_time_period :: "period option"
  priv_amplitude :: "real option"
  priv_attenuation :: "real option"
  priv_exit :: "bool option"

datatype outcome = Returns signal_generator | Raises error signal_generator

fun then_call :: "outcome \<Rightarrow> (signal_generator \<Rightarrow> outcome) \<Rightarrow> outcome" where
  "then_call (Returns s) f = f s"
| "then_call (Raises e s) f = Raises e s"

definition AMPL_MIN :: real where "AMPL_MIN = 0"
definition AMPL_MAX :: real where "AMPL_MAX = 10"
definition FREQ_MIN :: real where "FREQ_MIN = 1 / 10"
definition FREQ_MAX :: real where "FREQ_MAX = 1000000000"

definition FREQ_RANGE :: "(real \<times> real) list" where
  "FREQ_RANGE =
    [(1 / 10, 10), (10, 100), (100, 1000), (1000, 10000), (10000, 100000),
     (100000, 1000000), (1000000, 10000000), (10000000, 1000000000)]"

subsection \<open>Properties\<close>

fun attr :: "'a option \<Rightarrow> error + 'a" where
  "attr None = Inl AttributeError"
| "attr (Some v) = Inr v"

definition frequency :: "signal_generator \<Rightarrow> error + real" where
  "frequency s = attr (priv_frequency s)"

definition time_period :: "signal_generator \<Rightarrow> error + period" where
  "time_period s = attr (priv_time_period s)"

definition attenuation :: "signal_generator \<Rightarrow> error + real" where
  "attenuation s = attr (priv_attenuation s)"

definition amplitude :: "signal_generator \<Rightarrow> error + real" where
  "amplitude s = attr (priv_amplitude s)"

definition offset :: "signal_generator \<Rightarrow> error + real" where
  "offset s = attr (priv_offset s)"

definition type_prop :: "signal_generator \<Rightarrow> error + real" where
  "type_prop s = attr (priv_type s)"

text \<open>\<^verbatim>\<open>enabled\<close> reads the attribute \<^verbatim>\<open>_enable\<close>, \<^verbatim>\<open>disabled\<close> negates \<^verbatim>\<open>enabled\<close>.\<close>

definition enabled :: "signal_generator \<Rightarrow> error + bool" where
  "enabled s = attr (priv_enable s)"

definition disabled :: "signal_generator \<Rightarrow> error + bool" where
  "disabled s = (case enabled s of Inl e \<Rightarrow> Inl e | Inr b \<Rightarrow> Inr (\<not> b))"

definition frequency_range :: "signal_generator \<Rightarrow> error + (real \<times> real)" where
  "frequency_range s = attr (priv_frequency_range s)"

fun period_div :: "period \<Rightarrow> real \<Rightarrow> period" where
  "period_div (Finite p) k = Finite (p / k)"
| "period_div Infinite k = Infinite"

text \<open>\<^verbatim>\<open>self._time_period / float(500)\<close>\<close>

definition SAMPLING_TIME_INTERVAL :: "signal_generator \<Rightarrow> error + period" where
  "SAMPLING_TIME_INTERVAL s =
    (case attr (priv_time_period s) of Inl e \<Rightarrow> Inl e | Inr p \<Rightarrow> Inr (period_div p 500))"

subsection \<open>Setters\<close>

definition set_amplitude_exact :: "signal_generator \<Rightarrow> pyval \<Rightarrow> outcome" where
  "set_amplitude_exact s ampl =
    (case int_or_float ampl of
       None \<Rightarrow> Raises Exception s
     | Some a \<Rightarrow>
        (let s1 = (if a \<le> AMPL_MIN
                   then s\<lparr>priv_amplitude := Some 0, priv_attenuation := Some 0\<rparr> else s);
             s2 = (if a \<ge> AMPL_MAX
                   then s1\<lparr>priv_amplitude := Some 10, priv_attenuation := Some 0\<rparr> else s1)
         in (case log10 (a / 10) of
               Inl e \<Rightarrow> Raises e s2
             | Inr l \<Rightarrow> Returns (s2\<lparr>priv_attenuation := Some (20 * l),
                                     priv_amplitude := Some a\<rparr>))))"

text \<open>
  The loop over \<^verbatim>\<open>FREQ_RANGE\<close> of \<^verbatim>\<open>set_frequency_exact\<close>: the first band \<open>r\<close> with
  \<^verbatim>\<open>frequency <= r[0] and frequency >= r[0]\<close>, if there is one.
\<close>

fun choose_range :: "real \<Rightarrow> (real \<times> real) list \<Rightarrow> (real \<times> real) option" where
  "choose_range f [] = None"
| "choose_range f (r # rs) =
    (if f \<le> fst r \<and> f \<ge> fst r then Some r else choose_range f rs)"

definition set_frequency_exact :: "signal_generator \<Rightarrow> pyval \<Rightarrow> outcome" where
  "set_frequency_exact s freq =
    (case int_or_float freq of
       None \<Rightarrow> Raises Exception s
     | Some f \<Rightarrow>
        (let s1 = (if f < FREQ_MIN then s\<lparr>priv_frequency := Some FREQ_MIN\<rparr> else s);
             s2 = (if f > FREQ_MAX then s1\<lparr>priv_frequency := Some FREQ_MAX\<rparr> else s1);
             s3 = s2\<lparr>priv_frequency := Some f\<rparr>;
             s4 = (case choose_range f FREQ_RANGE of
                     None \<Rightarrow> s3
                   | Some r \<Rightarrow> s3\<lparr>priv_frequency_range := Some r\<rparr>)
         in Returns (if f \<noteq> 0 then s4\<lparr>priv_time_period := Some (Finite (1 / f))\<rparr>
                     else s4\<lparr>priv_time_period := Some Infinite\<rparr>)))"

text \<open>
  \<^verbatim>\<open>set_frequency_range\<close>: the edges are saturated by item assignment, which a list
  supports and a tuple does not (\<^verbatim>\<open>TypeError\<close>).
\<close>

fun saturate_range :: "signal_generator \<Rightarrow> bool \<Rightarrow> num list \<Rightarrow> outcome" where
  "saturate_range s mutable [lo, hi] =
    (if val lo > val hi then Raises Exception s
     else if val lo < FREQ_MIN \<and> \<not> mutable then Raises TypeError s
     else (let lo' = (if val lo < FREQ_MIN then FREQ_MIN else val lo)
           in if val hi > FREQ_MAX \<and> \<not> mutable then Raises TypeError s
              else (let hi' = (if val hi > FREQ_MAX then FREQ_MAX else val hi)
                    in Returns (s\<lparr>priv_frequency_range := Some (lo', hi')\<rparr>))))"
| "saturate_range s mutable xs = Raises Exception s"

definition set_frequency_range :: "signal_generator \<Rightarrow> pyval \<Rightarrow> outcome" where
  "set_frequency_range s range_tuple =
    (case range_tuple of
       PList xs \<Rightarrow> saturate_range s True xs
     | PTuple xs \<Rightarrow> saturate_range s False xs
     | _ \<Rightarrow> Raises Exception s)"

definition set_type :: "signal_generator \<Rightarrow> pyval \<Rightarrow> outcome" where
  "set_type s typ =
    (case py_number typ of
       Some t \<Rightarrow> (if t \<in> set (map real [0..<6]) then Returns (s\<lparr>priv_type := Some t\<rparr>)
                  else Raises Exception s)
     | None \<Rightarrow> Raises Exception s)"

definition set_offset :: "signal_generator \<Rightarrow> pyval \<Rightarrow> outcome" where
  "set_offset s off =
    (case int_or_float off of
       None \<Rightarrow> Raises Exception s
     | Some v \<Rightarrow> (if v > AMPL_MAX \<or> v < - AMPL_MAX then Raises Exception s
                  else Returns (s\<lparr>priv_offset := Some v\<rparr>)))"

definition set_modulation_type :: "signal_generator \<Rightarrow> pyval \<Rightarrow> outcome" where
  "set_modulation_type s mod_type =
    (case py_number mod_type of
       Some t \<Rightarrow> (if t \<notin> set [0, 1, 2] then Raises Exception s
                  else Returns (s\<lparr>priv_mod_type := Some t\<rparr>))
     | None \<Rightarrow> Raises Exception s)"

subsection \<open>Construction\<close>

text \<open>The object before the body of \<^verbatim>\<open>__init__\<close> has assigned anything but the buses.\<close>

definition blank :: signal_generator where
  "blank = \<lparr>enable = 0, mod_ip = (0, 0), priv_enable = None, priv_offset = None,
            priv_mod_type = None, priv_type = None, priv_frequency = None,
            priv_frequency_range = None, priv_time_period = None,
            priv_amplitude = None, priv_attenuation = None, priv_exit = None\<rparr>"

definition init :: "pyval \<Rightarrow> pyval \<Rightarrow> pyval \<Rightarrow> outcome" where
  "init typ freq ampl =
    then_call (set_offset blank (Num (PFloat 0))) (\<lambda>s.
    then_call (set_modulation_type s (Num (PInt 0))) (\<lambda>s.
    then_call (set_type s typ) (\<lambda>s.
    then_call (set_frequency_exact (s\<lparr>priv_frequency := Some 1000\<rparr>) freq) (\<lambda>s.
    then_call (set_amplitude_exact (s\<lparr>priv_amplitude := Some 1\<rparr>) ampl) (\<lambda>s.
    Returns (s\<lparr>priv_exit := Some False\<rparr>))))))"

text \<open>\<^verbatim>\<open>SignalGenerator()\<close>: the defaults \<^verbatim>\<open>typ=0, freq=1000, ampl=5\<close>.\<close>

definition default_generator :: outcome where
  "default_generator = init (Num (PInt 0)) (Num (PInt 1000)) (Num (PInt 5))"

subsection \<open>The thread body: \<^verbatim>\<open>run\<close>\<close>

text \<open>
  \<^verbatim>\<open>time.time()\<close> is read from the system clock. A reading is modelled as the count of
  nanoseconds since the epoch, so it is never negative; \<open>seconds\<close> is the float that
  \<^verbatim>\<open>time.time()\<close> returns.
\<close>

definition seconds :: "nat \<Rightarrow> real" where
  "seconds n = real n / 1000000000"

fun and_then :: "error + 'a \<Rightarrow> ('a \<Rightarrow> error + 'b) \<Rightarrow> error + 'b" where
  "and_then (Inl e) f = Inl e"
| "and_then (Inr x) f = f x"

text \<open>
  \<^verbatim>\<open>time.time() % self._time_period\<close>: Python's float remainder has the sign of the
  divisor, raises \<^verbatim>\<open>ZeroDivisionError\<close> for the divisor 0, and returns a non-negative
  dividend unchanged for the divisor \<^verbatim>\<open>inf\<close>.
\<close>

fun time_mod :: "nat \<Rightarrow> period \<Rightarrow> error + real" where
  "time_mod n (Finite p) =
    (if p = 0 then Inl ZeroDivisionError
     else Inr (seconds n - p * of_int \<lfloor>seconds n / p\<rfloor>))"
| "time_mod n Infinite = Inr (seconds n)"

text \<open>
  \<^verbatim>\<open>old_time_offset\<close> starts as \<^verbatim>\<open>cur_time_offset - self._time_period\<close>, which is
  \<^verbatim>\<open>-inf\<close> for the period \<^verbatim>\<open>inf\<close>.
\<close>

datatype offset = Offset real | NegInfinite

fun sub_period :: "real \<Rightarrow> period \<Rightarrow> offset" where
  "sub_period c (Finite p) = Offset (c - p)"
| "sub_period c Infinite = NegInfinite"

text \<open>\<^verbatim>\<open>abs(cur_time_offset - old_time_offset)\<close>\<close>

fun abs_diff :: "real \<Rightarrow> offset \<Rightarrow> period" where
  "abs_diff c (Offset d) = Finite \<bar>c - d\<bar>"
| "abs_diff c NegInfinite = Infinite"

fun period_ge :: "period \<Rightarrow> period \<Rightarrow> bool" where
  "period_ge (Finite a) (Finite b) = (a \<ge> b)"
| "period_ge Infinite b = True"
| "period_ge (Finite a) Infinite = False"

text \<open>\<^verbatim>\<open>cur_time_offset < t\<close> and \<^verbatim>\<open>cur_time_offset / time_p\<close> for a finite offset.\<close>

fun lt_period :: "real \<Rightarrow> period \<Rightarrow> bool" where
  "lt_period c (Finite p) = (c < p)"
| "lt_period c Infinite = True"

fun div_period :: "real \<Rightarrow> period \<Rightarrow> error + real" where
  "div_period c (Finite p) = (if p = 0 then Inl ZeroDivisionError else Inr (c / p))"
| "div_period c Infinite = Inr 0"

text \<open>
  The local variables that live across iterations of the loop: \<^verbatim>\<open>old_time_offset\<close>, and
  \<^verbatim>\<open>voltage\<close>, which is unbound (\<open>None\<close>) until an iteration assigns it.
\<close>

record locals =
  old_time_offset :: offset
  voltage :: "real option"

text \<open>What the thread does to the outside: a write to the output bus, or a sleep.\<close>

datatype event = SetVoltageAll real real | Sleep real

text \<open>
  \<^verbatim>\<open>time.sleep\<close> raises \<^verbatim>\<open>ValueError\<close> for a negative length and \<^verbatim>\<open>OverflowError\<close> for
  \<^verbatim>\<open>inf\<close>.
\<close>

fun py_sleep :: "period \<Rightarrow> error + event" where
  "py_sleep (Finite d) = (if d < 0 then Inl ValueError else Inr (Sleep d))"
| "py_sleep Infinite = Inl OverflowError"

text \<open>Lines 497 to 507: the frequency and the period the carrier is synthesized with.\<close>

definition carrier_params :: "signal_generator \<Rightarrow> real \<Rightarrow> error + (real \<times> period)" where
  "carrier_params s m_t =
    and_then (attr (priv_mod_type s)) (\<lambda>mt.
    and_then (attr (priv_frequency s)) (\<lambda>f.
      if mt = 2
      then (let freq = f + m_t
            in Inr (freq, if freq \<noteq> 0 then Finite (1 / freq) else Infinite))
      else and_then (attr (priv_time_period s)) (\<lambda>p. Inr (f, p))))"

fun bound :: "real option \<Rightarrow> error + real" where
  "bound None = Inl UnboundLocalError"
| "bound (Some v) = Inr v"

text \<open>
  Lines 509 to 535: the chain of \<^verbatim>\<open>if\<close> statements on \<^verbatim>\<open>self.type\<close>, each of which
  assigns \<^verbatim>\<open>voltage\<close> or leaves it as it was (\<open>v0\<close> on entry).
\<close>

definition synthesize ::
  "real \<Rightarrow> real \<Rightarrow> period \<Rightarrow> real \<Rightarrow> real option \<Rightarrow> error + real option" where
  "synthesize typ freq time_p cur v0 =
    (let v1 = (if typ = 0 then Some (sin (2 * pi * freq * cur) + 0.5) else v0);
         v2 = (if typ = 1
               then Some (if lt_period cur (period_div time_p 2) then 1 else 0) else v1)
     in and_then (if typ = 2
                  then and_then (div_period cur time_p) (\<lambda>x. Inr (Some x))
                  else Inr v2) (\<lambda>v3.
        and_then (if typ = 3 \<or> typ = 4
                  then and_then (div_period cur time_p) (\<lambda>x. Inr (Some (2 * (x - (x + 0.5)))))
                  else Inr v3) (\<lambda>v4.
        and_then (if typ = 3
                  then and_then (bound v4) (\<lambda>v. Inr (Some \<bar>v\<bar>))
                  else Inr v4) (\<lambda>v5.
        if typ = 4 then and_then (bound v5) (\<lambda>v. Inr (Some (v + 1))) else Inr v5))))"

text \<open>Lines 537 to 540: amplitude modulation of the synthesized sample.\<close>

definition modulate :: "real \<Rightarrow> real \<Rightarrow> real option \<Rightarrow> error + real option" where
  "modulate mt m_t v =
    (if mt = 1 then and_then (bound v) (\<lambda>c_t. Inr (Some ((1 + m_t) * c_t))) else Inr v)"

text \<open>
  Lines 493 to 544, the update of the output: the result is the voltage written to the
  output bus and the value \<^verbatim>\<open>voltage\<close> is left with.
\<close>

definition sample :: "signal_generator \<Rightarrow> real \<Rightarrow> real option \<Rightarrow> error + (real \<times> real)" where
  "sample s cur v0 =
    (let m_t = fst (mod_ip s) - snd (mod_ip s)
     in and_then (carrier_params s m_t) (\<lambda>(freq, time_p).
        and_then (type_prop s) (\<lambda>typ.
        and_then (synthesize typ freq time_p cur v0) (\<lambda>v.
        and_then (attr (priv_mod_type s)) (\<lambda>mt.
        and_then (modulate mt m_t v) (\<lambda>v'.
        and_then (bound v') (\<lambda>vol.
        and_then (attr (priv_amplitude s)) (\<lambda>a.
        and_then (attr (priv_offset s)) (\<lambda>off.
          Inr (vol * a + off, vol))))))))))"

text \<open>
  One iteration of the \<^verbatim>\<open>while\<close> loop (lines 489 to 548), on the object as the
  iteration sees it and the clock reading it takes: it goes on with new locals, or an
  exception ends the thread; either way with the events it caused.
\<close>

datatype tick = Continue "event list" locals | Crash "event list" error

definition iteration :: "signal_generator \<Rightarrow> nat \<Rightarrow> locals \<Rightarrow> tick" where
  "iteration s now l =
    (case and_then (attr (priv_time_period s)) (\<lambda>p.
          and_then (time_mod now p) (\<lambda>cur.
          and_then (SAMPLING_TIME_INTERVAL s) (\<lambda>iv. Inr (cur, iv)))) of
       Inl e \<Rightarrow> Crash [] e
     | Inr (cur, iv) \<Rightarrow>
        if period_ge (abs_diff cur (old_time_offset l)) iv
        then (case sample s cur (voltage l) of
                Inl e \<Rightarrow> Crash [] e
              | Inr (out, v) \<Rightarrow>
                 (case and_then (SAMPLING_TIME_INTERVAL s) py_sleep of
                    Inl e \<Rightarrow> Crash [SetVoltageAll out 0] e
                  | Inr ev \<Rightarrow>
                     Continue [SetVoltageAll out 0, ev]
                       \<lparr>old_time_offset = Offset cur, voltage = Some v\<rparr>))
        else Continue [] l)"

text \<open>
  The loop. The thread shares the object with its callers, so each iteration gets its
  own view of the object, with a clock reading; the list of these observations is as long
  as the loop is watched. The loop ends when it sees \<^verbatim>\<open>_exit\<close> set, or on an exception.
\<close>

datatype run_end = Terminated | Crashed error | Running locals

fun run_loop :: "(signal_generator \<times> nat) list \<Rightarrow> locals \<Rightarrow> event list \<times> run_end" where
  "run_loop [] l = ([], Running l)"
| "run_loop ((s, now) # obs) l =
    (case attr (priv_exit s) of
       Inl e \<Rightarrow> ([], Crashed e)
     | Inr True \<Rightarrow> ([], Terminated)
     | Inr False \<Rightarrow>
        (case iteration s now l of
           Crash evs e \<Rightarrow> (evs, Crashed e)
         | Continue evs l' \<Rightarrow>
            (case run_loop obs l' of (evs', r) \<Rightarrow> (evs @ evs', r))))"

text \<open>\<^verbatim>\<open>run\<close>: the two assignments before the loop, then the loop.\<close>

definition run :: "signal_generator \<Rightarrow> nat \<Rightarrow> (signal_generator \<times> nat) list \<Rightarrow> event list \<times> run_end" where
  "run s now obs =
    (case and_then (attr (priv_time_period s)) (\<lambda>p.
          and_then (time_mod now p) (\<lambda>cur. Inr (sub_period cur p))) of
       Inl e \<Rightarrow> ([], Crashed e)
     | Inr old \<Rightarrow> run_loop obs \<lparr>old_time_offset = old, voltage = None\<rparr>)"

text \<open>The object a call leaves behind, whether it returned or raised.\<close>

fun object_of :: "outcome \<Rightarrow> signal_generator" where
  "object_of (Returns s) = s"
| "object_of (Raises e s) = s"


subsection \<open>Double precision: lines 524 to 535 of \<^verbatim>\<open>run\<close>\<close>

text \<open>
  A Python float is an IEEE 754 double: a real of at most 53 significant bits, with
  exponents from -1022 (below which the spacing stays \<open>2 powi - 1074\<close>) to 1023. Every
  arithmetic operation returns the double nearest to the exact result, a tie going to
  the even significand. \<open>fl\<close> is that rounding for a result below the overflow threshold.
\<close>

definition round_even :: "real \<Rightarrow> int" where
  "round_even r =
    (let f = \<lfloor>r\<rfloor>; d = r - of_int f
     in if d < 1 / 2 then f else if d > 1 / 2 then f + 1 else if even f then f else f + 1)"

definition fl :: "real \<Rightarrow> real" where
  "fl y =
    (if y = 0 then 0
     else (let e = max \<lfloor>log 2 \<bar>y\<bar>\<rfloor> (- 1022); u = 2 powi (e - 52)
           in of_int (round_even (y / u)) * u))"

text \<open>The value of \<^verbatim>\<open>voltage\<close> in double precision: a double, or \<^verbatim>\<open>nan\<close>.\<close>

datatype double = Double real | NaN

text \<open>
  \<^verbatim>\<open>cur_time_offset / time_p\<close> on doubles: \<^verbatim>\<open>ZeroDivisionError\<close> for the divisor 0, an
  infinity (\<open>None\<close>) when the rounded quotient is beyond the largest double, 0 for the
  divisor \<^verbatim>\<open>inf\<close>.
\<close>

fun double_div :: "real \<Rightarrow> period \<Rightarrow> error + real option" where
  "double_div c (Finite p) =
    (if p = 0 then Inl ZeroDivisionError
     else if \<bar>fl (c / p)\<bar> \<ge> 2 ^ 1024 then Inr None
     else Inr (Some (fl (c / p))))"
| "double_div c Infinite = Inr (Some 0)"

text \<open>
  \<^verbatim>\<open>2 * (q - (q + 0.5))\<close> for the quotient \<open>q\<close>, each operation rounded. For an infinite
  quotient the sum is that infinity and the difference of the two is \<^verbatim>\<open>nan\<close>.
\<close>

fun fold_double :: "real option \<Rightarrow> double" where
  "fold_double None = NaN"
| "fold_double (Some x) = Double (fl (2 * fl (x - fl (x + 1 / 2))))"

fun double_abs :: "double \<Rightarrow> double" where
  "double_abs (Double v) = Double \<bar>v\<bar>"
| "double_abs NaN = NaN"

fun double_add :: "double \<Rightarrow> real \<Rightarrow> double" where
  "double_add (Double v) k = Double (fl (v + k))"
| "double_add NaN k = NaN"

fun bound_double :: "double option \<Rightarrow> error + double" where
  "bound_double None = Inl UnboundLocalError"
| "bound_double (Some v) = Inr v"

text \<open>
  Lines 524 to 535 on doubles: the three \<^verbatim>\<open>if\<close> statements for the types 3 and 4, with
  \<open>v3\<close> the value of \<^verbatim>\<open>voltage\<close> on entry.
\<close>

definition synthesize_fold_double ::
  "real \<Rightarrow> period \<Rightarrow> real \<Rightarrow> double option \<Rightarrow> error + double option" where
  "synthesize_fold_double typ time_p cur v3 =
    and_then (if typ = 3 \<or> typ = 4
              then and_then (double_div cur time_p) (\<lambda>q. Inr (Some (fold_double q)))
              else Inr v3) (\<lambda>v4.
    and_then (if typ = 3
              then and_then (bound_double v4) (\<lambda>v. Inr (Some (double_abs v)))
              else Inr v4) (\<lambda>v5.
    if typ = 4 then and_then (bound_double v5) (\<lambda>v. Inr (Some (double_add v 1))) else Inr v5))"

section \<open>Properties of the program\<close>

subsection \<open>Auxiliary facts\<close>

lemma and_then_Inr_iff: "and_then m f = Inr y \<longleftrightarrow> (\<exists>x. m = Inr x \<and> f x = Inr y)"
  by (cases m) simp_all

lemma attr_Inr_iff: "attr a = Inr x \<longleftrightarrow> a = Some x"
  by (cases a) auto


text \<open>
  What \<^verbatim>\<open>SignalGenerator(typ, 1000, 5)\<close> constructs, for a valid waveform type: the
  frequency 1000 is the lower bound of a band, so the range is set.
\<close>

lemma init_explicit:
  "py_number typ = Some t \<Longrightarrow> t \<in> set (map real [0..<6]) \<Longrightarrow>
   init typ (Num (PInt 1000)) (Num (PInt 5)) =
     Returns \<lparr>enable = 0, mod_ip = (0, 0), priv_enable = None, priv_offset = Some 0,
       priv_mod_type = Some 0, priv_type = Some t, priv_frequency = Some 1000,
       priv_frequency_range = Some (1000, 10000), priv_time_period = Some (Finite (1 / 1000)),
       priv_amplitude = Some 5, priv_attenuation = Some (20 * log 10 (1 / 2)),
       priv_exit = Some False\<rparr>"
  by (simp add: init_def blank_def set_offset_def set_modulation_type_def set_type_def
      set_frequency_exact_def set_amplitude_exact_def AMPL_MAX_def AMPL_MIN_def FREQ_MIN_def
      FREQ_MAX_def FREQ_RANGE_def log10_def Let_def)

lemma default_generator_explicit:
  "default_generator =
     Returns \<lparr>enable = 0, mod_ip = (0, 0), priv_enable = None, priv_offset = Some 0,
       priv_mod_type = Some 0, priv_type = Some 0, priv_frequency = Some 1000,
       priv_frequency_range = Some (1000, 10000), priv_time_period = Some (Finite (1 / 1000)),
       priv_amplitude = Some 5, priv_attenuation = Some (20 * log 10 (1 / 2)),
       priv_exit = Some False\<rparr>"
  unfolding default_generator_def by (rule init_explicit) simp_all

lemma square_generator_explicit:
  "init (Num (PInt 1)) (Num (PInt 1000)) (Num (PInt 5)) =
     Returns \<lparr>enable = 0, mod_ip = (0, 0), priv_enable = None, priv_offset = Some 0,
       priv_mod_type = Some 0, priv_type = Some 1, priv_frequency = Some 1000,
       priv_frequency_range = Some (1000, 10000), priv_time_period = Some (Finite (1 / 1000)),
       priv_amplitude = Some 5, priv_attenuation = Some (20 * log 10 (1 / 2)),
       priv_exit = Some False\<rparr>"
  using init_explicit [of "Num (PInt 1)" 1] by simp

lemma ttl_generator_explicit:
  "init (Num (PInt 5)) (Num (PInt 1000)) (Num (PInt 5)) =
     Returns \<lparr>enable = 0, mod_ip = (0, 0), priv_enable = None, priv_offset = Some 0,
       priv_mod_type = Some 0, priv_type = Some 5, priv_frequency = Some 1000,
       priv_frequency_range = Some (1000, 10000), priv_time_period = Some (Finite (1 / 1000)),
       priv_amplitude = Some 5, priv_attenuation = Some (20 * log 10 (1 / 2)),
       priv_exit = Some False\<rparr>"
  using init_explicit [of "Num (PInt 5)" 5] by simp

text \<open>Clock readings of 0 s and 0.25 ms, in a period of 1 ms.\<close>

lemma time_mod_zero: "time_mod 0 (Finite (1 / 1000)) = Inr 0"
  by (simp add: seconds_def)

lemma time_mod_quarter: "time_mod 250000 (Finite (1 / 1000)) = Inr (1 / 4000)"
  by (simp add: seconds_def)

text \<open>
  The first iteration of a square-wave generator of 1 kHz and 5 V, 0.25 ms into the
  period: it publishes 5 V and sleeps 2 microseconds.
\<close>

lemma square_first_iteration:
  "iteration (object_of (init (Num (PInt 1)) (Num (PInt 1000)) (Num (PInt 5)))) 250000
      \<lparr>old_time_offset = Offset (- (1 / 1000)), voltage = None\<rparr>
     = Continue [SetVoltageAll 5 0, Sleep (1 / 500000)]
         \<lparr>old_time_offset = Offset (1 / 4000), voltage = Some 1\<rparr>"
  by (simp add: square_generator_explicit iteration_def
      sample_def carrier_params_def synthesize_def modulate_def type_prop_def
      SAMPLING_TIME_INTERVAL_def time_mod_quarter del: time_mod.simps)

subsection \<open>Frequency\<close>

text \<open>
  C1. The claim: after \<^verbatim>\<open>set_frequency_exact(hz)\<close> the stored frequency lies in
  \<open>[FREQ_MIN, FREQ_MAX]\<close>. The code assigns the bound on each of the two clamp branches
  and then assigns \<^verbatim>\<open>float(frequency)\<close> unconditionally, so the stored frequency is
  always the argument: on the default generator, \<open>FREQ_MAX + 1\<close> is stored as
  1000000001 and 0.05 as 0.05, both outside the interval.
\<close>

theorem set_frequency_exact_stores_argument_outside_bounds:
  "frequency (object_of (set_frequency_exact (object_of default_generator)
       (Num (PInt 1000000001)))) = Inr 1000000001
   \<and> \<not> (1000000001 \<le> FREQ_MAX)
   \<and> frequency (object_of (set_frequency_exact (object_of default_generator)
       (Num (PFloat (1 / 20))))) = Inr (1 / 20)
   \<and> \<not> (FREQ_MIN \<le> 1 / 20)"
  by (simp add: default_generator_explicit set_frequency_exact_def frequency_def FREQ_MIN_def
      FREQ_MAX_def FREQ_RANGE_def Let_def)

text \<open>
  C3. The claim: for \<open>f\<close> in \<open>[FREQ_MIN, FREQ_MAX]\<close>, the stored period is \<open>1/f\<close> and
  the stored range is a band that contains \<open>f\<close>. The period is as claimed; the band is
  not: the loop tests \<^verbatim>\<open>frequency <= r[0] and frequency >= r[0]\<close>, so it selects a band
  only when \<open>f\<close> is the lower bound of one. On the default generator (range
  \<open>(1000, 10000)\<close>), setting 50 Hz leaves that range in place; a generator constructed
  with 50 Hz has no range at all.
\<close>

theorem set_frequency_exact_leaves_stale_range:
  "time_period (object_of (set_frequency_exact (object_of default_generator)
       (Num (PInt 50)))) = Inr (Finite (1 / 50))
   \<and> frequency_range (object_of (set_frequency_exact (object_of default_generator)
       (Num (PInt 50)))) = Inr (1000, 10000)
   \<and> \<not> (1000 \<le> (50::real))
   \<and> frequency_range (object_of (init (Num (PInt 0)) (Num (PInt 50)) (Num (PInt 5))))
       = Inl AttributeError"
  by (simp add: default_generator_explicit set_frequency_exact_def time_period_def
      frequency_range_def FREQ_MIN_def FREQ_MAX_def FREQ_RANGE_def Let_def
      init_def blank_def set_offset_def set_modulation_type_def set_type_def
      set_amplitude_exact_def AMPL_MAX_def AMPL_MIN_def log10_def)

text \<open>The band chosen by the loop, when it chooses one, starts at the frequency.\<close>

lemma choose_range_lower_bound: "choose_range f rs = Some r \<Longrightarrow> fst r = f"
  by (induction rs) (auto split: if_splits)

text \<open>
  C7. The claim: \<^verbatim>\<open>set_frequency_range\<close> saturates an out-of-bound edge of a two-element
  list or tuple without raising. The code saturates by item assignment: on a list this
  works, on a tuple it raises \<^verbatim>\<open>TypeError\<close>.
\<close>

theorem set_frequency_range_tuple_raises:
  "set_frequency_range (object_of default_generator) (PTuple [PFloat (1 / 20), PInt 10])
     = Raises TypeError (object_of default_generator)
   \<and> set_frequency_range (object_of default_generator) (PTuple [PInt 10, PInt 2000000000])
     = Raises TypeError (object_of default_generator)
   \<and> set_frequency_range (object_of default_generator) (PList [PFloat (1 / 20), PInt 10])
     = Returns ((object_of default_generator)\<lparr>priv_frequency_range := Some (FREQ_MIN, 10)\<rparr>)"
  by (simp add: default_generator_explicit set_frequency_range_def FREQ_MIN_def FREQ_MAX_def)

subsection \<open>Amplitude\<close>

text \<open>
  C2. The claim: \<^verbatim>\<open>set_amplitude_exact(a)\<close> succeeds for \<open>0 \<le> a \<le> 10\<close>, and saturates
  the amplitude to 0 or 10 outside. The code assigns on the two clamp branches and then
  computes \<^verbatim>\<open>math.log10(float(ampl) / 10)\<close> and assigns \<^verbatim>\<open>float(ampl)\<close> unconditionally:
  for 0 (and below) the logarithm raises \<^verbatim>\<open>ValueError\<close>, after the clamp branch has
  written; for 11 the stored amplitude is 11.
\<close>

theorem set_amplitude_exact_raises_or_exceeds:
  "set_amplitude_exact (object_of default_generator) (Num (PInt 0)) =
     Raises ValueError
       ((object_of default_generator)\<lparr>priv_amplitude := Some 0, priv_attenuation := Some 0\<rparr>)
   \<and> set_amplitude_exact (object_of default_generator) (Num (PInt (- 1))) =
     Raises ValueError
       ((object_of default_generator)\<lparr>priv_amplitude := Some 0, priv_attenuation := Some 0\<rparr>)
   \<and> amplitude (object_of (set_amplitude_exact (object_of default_generator) (Num (PInt 11))))
       = Inr 11
   \<and> \<not> (11 \<le> AMPL_MAX)"
  by (simp add: default_generator_explicit set_amplitude_exact_def amplitude_def AMPL_MIN_def
      AMPL_MAX_def log10_def Let_def)

subsection \<open>Properties of the object\<close>

text \<open>
  C9. The claim: after construction, reading \<^verbatim>\<open>enabled\<close> (and \<^verbatim>\<open>disabled\<close>) returns a
  boolean. \<^verbatim>\<open>__init__\<close> assigns the attribute \<^verbatim>\<open>enable\<close>; the property reads
  \<^verbatim>\<open>_enable\<close>, which nothing assigns, so on the default generator both properties
  raise \<^verbatim>\<open>AttributeError\<close>.
\<close>

theorem enabled_raises_after_construction:
  "(\<exists>s. default_generator = Returns s)
   \<and> enabled (object_of default_generator) = Inl AttributeError
   \<and> disabled (object_of default_generator) = Inl AttributeError"
  by (simp add: default_generator_explicit enabled_def disabled_def)

text \<open>No constructor call assigns \<^verbatim>\<open>_enable\<close>, whatever its arguments.\<close>

lemma init_never_sets_enable: "priv_enable (object_of (init typ freq ampl)) = None"
  by (simp add: init_def blank_def set_offset_def set_modulation_type_def set_type_def
      set_frequency_exact_def set_amplitude_exact_def AMPL_MAX_def AMPL_MIN_def
      Let_def split: option.splits sum.splits)

subsection \<open>Waveform synthesis\<close>

text \<open>How far \<open>fl\<close> moves a value, and its value when the binary exponent is known.\<close>

lemma round_even_error: "\<bar>of_int (round_even r) - r\<bar> \<le> 1 / 2"
  unfolding round_even_def Let_def by (auto simp: abs_le_iff)

lemma fl_eval:
  assumes "2 powi e \<le> \<bar>y\<bar>" "\<bar>y\<bar> < 2 powi (e + 1)" "- 1022 \<le> e"
  shows "fl y = of_int (round_even (y / 2 powi (e - 52))) * 2 powi (e - 52)"
proof -
  have "(0::real) < 2 powi e" by simp
  with assms(1) have pos: "0 < \<bar>y\<bar>" by linarith
  have p1: "(2::real) powr real_of_int e = 2 powi e"
    and p2: "(2::real) powr real_of_int (e + 1) = 2 powi (e + 1)"
    by (rule powr_real_of_int'; simp)+
  have "\<lfloor>log 2 \<bar>y\<bar>\<rfloor> = e"
    using assms(1,2) pos by (simp only: floor_log_eq_powr_iff p1 p2)
  with pos assms(3) show ?thesis by (simp add: fl_def Let_def max_def)
qed

lemma fl_error:
  assumes "\<bar>y\<bar> < 2 powi k" "- 1021 \<le> k"
  shows "\<bar>fl y - y\<bar> \<le> 2 powi (k - 54)"
proof (cases "y = 0")
  case True
  then show ?thesis by (simp add: fl_def)
next
  case False
  define e where "e = max \<lfloor>log 2 \<bar>y\<bar>\<rfloor> (- 1022)"
  define u :: real where "u = 2 powi (e - 52)"
  have upos: "0 < u" by (simp add: u_def)
  have "log 2 \<bar>y\<bar> < of_int k"
    using assms(1) False by (simp add: log_less_iff powr_real_of_int')
  then have "\<lfloor>log 2 \<bar>y\<bar>\<rfloor> < k" by (simp add: floor_less_iff)
  with assms(2) have "e \<le> k - 1" by (simp add: e_def)
  then have ule: "u \<le> 2 powi (k - 53)"
    unfolding u_def by (intro power_int_increasing) auto
  have "fl y - y = (of_int (round_even (y / u)) - y / u) * u"
    using False upos by (simp add: fl_def Let_def e_def u_def algebra_simps)
  then have "\<bar>fl y - y\<bar> = \<bar>of_int (round_even (y / u)) - y / u\<bar> * u"
    using upos by (simp add: abs_mult)
  also have "\<dots> \<le> (1 / 2) * u"
    using round_even_error [of "y / u"] upos by (intro mult_right_mono) auto
  also have "\<dots> \<le> (1 / 2) * 2 powi (k - 53)" using ule by simp
  also have "\<dots> = 2 powi (k - 54)"
    by (simp add: power_int_diff)
  finally show ?thesis .
qed

text \<open>
  The doubles of one evaluation: the clock reading \<^verbatim>\<open>2e-9\<close> in the period \<^verbatim>\<open>1 / 1000.0\<close>
  of the default frequency. The quotient is \<^verbatim>\<open>2e-06\<close>; \<^verbatim>\<open>2e-06 + 0.5\<close> is rounded down,
  and the difference rounds to the double below \<open>-0.5\<close>.
\<close>

lemma fl_clock_2ns: "fl (2 / 1000000000) = 4835703278458517 / 2 ^ 81"
  by (subst fl_eval [of "- 29"]) (simp_all add: round_even_def power_int_minus divide_simps)

lemma fl_period_1ms: "fl (1 / 1000) = 1152921504606847 / 2 ^ 60"
  by (subst fl_eval [of "- 10"]) (simp_all add: round_even_def power_int_minus divide_simps)

lemma fl_quotient:
  "fl ((4835703278458517 / 2 ^ 81) / (1152921504606847 / 2 ^ 60)) = 4722366482869645 / 2 ^ 71"
  by (subst fl_eval [of "- 19"]) (simp_all add: round_even_def power_int_minus divide_simps)

lemma fl_sum: "fl (4722366482869645 / 2 ^ 71 + 1 / 2) = 4503617641769005 / 2 ^ 53"
  by (subst fl_eval [of "- 1"]) (simp_all add: round_even_def power_int_minus divide_simps)

lemma fl_difference:
  "fl (4722366482869645 / 2 ^ 71 - 4503617641769005 / 2 ^ 53) = - (9007199254740991 / 2 ^ 54)"
  by (subst fl_eval [of "- 2"]) (simp_all add: round_even_def power_int_minus divide_simps)

lemma fl_double: "fl (2 * - (9007199254740991 / 2 ^ 54)) = - (9007199254740991 / 2 ^ 53)"
  by (subst fl_eval [of "- 1"]) (simp_all add: round_even_def power_int_minus divide_simps)

lemma fl_plus_one: "fl (- (9007199254740991 / 2 ^ 53) + 1) = 1 / 2 ^ 53"
  by (subst fl_eval [of "- 53"]) (simp_all add: round_even_def power_int_minus divide_simps)

lemma double_div_2ns_1ms:
  "double_div (fl (2 / 1000000000)) (Finite (fl (1 / 1000)))
     = Inr (Some (4722366482869645 / 2 ^ 71))"
proof -
  have "double_div (4835703278458517 / 2 ^ 81) (Finite (1152921504606847 / 2 ^ 60))
     = Inr (Some (4722366482869645 / 2 ^ 71))"
    unfolding double_div.simps fl_quotient by simp
  then show ?thesis unfolding fl_clock_2ns fl_period_1ms .
qed

lemma fold_double_2ns_1ms:
  "fold_double (Some (4722366482869645 / 2 ^ 71)) = Double (- (9007199254740991 / 2 ^ 53))"
  unfolding fold_double.simps fl_sum fl_difference fl_double ..

lemma synthesize_fold_double_triangular:
  "double_div cur time_p = Inr q \<Longrightarrow>
   synthesize_fold_double 3 time_p cur v3 = Inr (Some (double_abs (fold_double q)))"
  by (simp add: synthesize_fold_double_def)

lemma synthesize_fold_double_sawtooth:
  "double_div cur time_p = Inr q \<Longrightarrow>
   synthesize_fold_double 4 time_p cur v3 = Inr (Some (double_add (fold_double q) 1))"
  by (simp add: synthesize_fold_double_def)

text \<open>
  C10, as stated: for every phase fraction and every period the raw voltage of the
  Triangular waveform (type 3) is 1 and that of the Sawtooth waveform (type 4) is 0.
  \<open>2 * (x - (x + 0.5))\<close> is \<open>-1\<close> over the reals, but the code computes it on doubles,
  where \<open>x + 0.5\<close> is rounded. At the clock reading \<^verbatim>\<open>2e-9\<close> in the period \<^verbatim>\<open>1 / 1000.0\<close>
  the Triangular voltage is \<open>1 - 1 / 2 ^ 53\<close> (\<^verbatim>\<open>0.9999999999999999\<close>) and the Sawtooth
  voltage is \<open>1 / 2 ^ 53\<close> (\<^verbatim>\<open>1.1102230246251565e-16\<close>).
\<close>

theorem triangular_and_sawtooth_not_constant_in_doubles:
  "synthesize_fold_double 3 (Finite (fl (1 / 1000))) (fl (2 / 1000000000)) None
     = Inr (Some (Double (9007199254740991 / 2 ^ 53)))
   \<and> synthesize_fold_double 4 (Finite (fl (1 / 1000))) (fl (2 / 1000000000)) None
     = Inr (Some (Double (1 / 2 ^ 53)))
   \<and> 9007199254740991 / 2 ^ 53 \<noteq> (1::real) \<and> 1 / 2 ^ 53 \<noteq> (0::real)"
proof -
  have w: "double_add (Double (- (9007199254740991 / 2 ^ 53))) 1 = Double (1 / 2 ^ 53)"
    unfolding double_add.simps fl_plus_one ..
  have a: "double_abs (Double (- (9007199254740991 / 2 ^ 53)))
      = Double (9007199254740991 / 2 ^ 53)"
    by simp
  show ?thesis
    unfolding synthesize_fold_double_triangular [OF double_div_2ns_1ms]
      synthesize_fold_double_sawtooth [OF double_div_2ns_1ms] fold_double_2ns_1ms a w
    by simp
qed

text \<open>The three roundings of the fold move it by at most \<open>1 / 2 ^ 51\<close> from \<open>-1\<close>.\<close>

lemma fold_arith:
  fixes x s d v a b :: real
  assumes "\<bar>s - (x + 1 / 2)\<bar> \<le> a" "\<bar>d - (x - s)\<bar> \<le> b" "\<bar>v - 2 * d\<bar> \<le> a"
  shows "\<bar>v + 1\<bar> \<le> 3 * a + 2 * b"
  using assms by linarith

lemma fold_double_bound:
  assumes "0 \<le> x" "x \<le> 1"
  shows "\<bar>fl (2 * fl (x - fl (x + 1 / 2))) + 1\<bar> \<le> 1 / 2 ^ 51"
proof -
  define s where "s = fl (x + 1 / 2)"
  define d where "d = fl (x - s)"
  define a :: real where "a = 1 / 2 ^ 53"
  define b :: real where "b = 1 / 2 ^ 54"
  have ab: "a \<le> 1 / 8" "b \<le> 1 / 8" "3 * a + 2 * b = 1 / 2 ^ 51"
    by (simp_all add: a_def b_def)
  have "\<bar>x + 1 / 2\<bar> < 2 powi 1" using assms by simp
  from fl_error [OF this] have s: "\<bar>s - (x + 1 / 2)\<bar> \<le> a"
    by (simp add: s_def a_def power_int_minus)
  have "\<bar>x - s\<bar> < 1" using s ab(1) by linarith
  then have "\<bar>x - s\<bar> < 2 powi 0" by simp
  from fl_error [OF this] have d: "\<bar>d - (x - s)\<bar> \<le> b"
    by (simp add: d_def b_def power_int_minus)
  have "\<bar>2 * d\<bar> < 2" using s d ab(1,2) by linarith
  then have "\<bar>2 * d\<bar> < 2 powi 1" by simp
  from fl_error [OF this] have v: "\<bar>fl (2 * d) - 2 * d\<bar> \<le> a"
    by (simp add: a_def power_int_minus)
  from fold_arith [OF s d v] show ?thesis
    unfolding d_def s_def ab(3) .
qed

lemma sawtooth_double_bound:
  assumes "\<bar>v + 1\<bar> \<le> 1 / 2 ^ 51"
  shows "\<bar>fl (v + 1)\<bar> \<le> 1 / 2 ^ 50"
proof -
  define c :: real where "c = 1 / 2 ^ 51"
  have c: "c < 2 powi (- 50)" "2 powi (- 50 - 54) \<le> c" "2 * c = 1 / 2 ^ 50"
    by (simp_all add: c_def power_int_minus)
  have "\<bar>v + 1\<bar> < 2 powi (- 50)" using assms c(1) unfolding c_def by linarith
  from fl_error [OF this] have "\<bar>fl (v + 1) - (v + 1)\<bar> \<le> c"
    using c(2) by simp
  with assms have "\<bar>fl (v + 1)\<bar> \<le> 2 * c" unfolding c_def by linarith
  then show ?thesis unfolding c(3) .
qed

text \<open>
  C10, amended: whenever the quotient \<^verbatim>\<open>cur_time_offset / time_p\<close> (the phase fraction, as
  the code computes it) lies in \<open>[0, 1]\<close>, the raw voltage of the Triangular waveform
  is within \<open>1 / 2 ^ 51\<close> of 1 and that of the Sawtooth waveform is within
  \<open>1 / 2 ^ 50\<close> of 0, whatever the phase and the period: the waveforms are constant up
  to the rounding of the doubles, not exactly.
\<close>

theorem triangular_and_sawtooth_nearly_constant:
  assumes "double_div cur time_p = Inr (Some x)" "0 \<le> x" "x \<le> 1"
  shows "\<exists>t w. synthesize_fold_double 3 time_p cur v3 = Inr (Some (Double t))
           \<and> \<bar>t - 1\<bar> \<le> 1 / 2 ^ 51
           \<and> synthesize_fold_double 4 time_p cur v3 = Inr (Some (Double w))
           \<and> \<bar>w\<bar> \<le> 1 / 2 ^ 50"
proof -
  define v where "v = fl (2 * fl (x - fl (x + 1 / 2)))"
  have v: "\<bar>v + 1\<bar> \<le> 1 / 2 ^ 51"
    unfolding v_def by (rule fold_double_bound [OF assms(2,3)])
  then have "\<bar>\<bar>v\<bar> - 1\<bar> \<le> 1 / 2 ^ 51" by linarith
  moreover have "\<bar>fl (v + 1)\<bar> \<le> 1 / 2 ^ 50" by (rule sawtooth_double_bound [OF v])
  ultimately show ?thesis
    using assms(1) by (simp add: synthesize_fold_double_def v_def)
qed

theorem triangular_and_sawtooth_nearly_constant_witness:
  "double_div (fl (2 / 1000000000)) (Finite (fl (1 / 1000)))
     = Inr (Some (4722366482869645 / 2 ^ 71))
   \<and> (0::real) \<le> 4722366482869645 / 2 ^ 71 \<and> 4722366482869645 / 2 ^ 71 \<le> (1::real)
   \<and> (\<exists>t w. synthesize_fold_double 3 (Finite (fl (1 / 1000))) (fl (2 / 1000000000)) None
                = Inr (Some (Double t))
           \<and> \<bar>t - 1\<bar> \<le> 1 / 2 ^ 51
           \<and> synthesize_fold_double 4 (Finite (fl (1 / 1000))) (fl (2 / 1000000000)) None
                = Inr (Some (Double w))
           \<and> \<bar>w\<bar> \<le> 1 / 2 ^ 50)"
proof -
  have lo: "(0::real) \<le> 4722366482869645 / 2 ^ 71" by simp
  have hi: "4722366482869645 / 2 ^ 71 \<le> (1::real)" by simp
  from triangular_and_sawtooth_nearly_constant [OF double_div_2ns_1ms lo hi, of None]
    double_div_2ns_1ms lo hi
  show ?thesis by blast
qed

text \<open>
  The period the carrier is synthesized with is never 0 when the stored period is not,
  and \<^verbatim>\<open>set_frequency_exact\<close> never stores the period 0: the division does not raise.
\<close>

lemma carrier_params_period_nonzero:
  "carrier_params s m_t = Inr (f, p) \<Longrightarrow> priv_time_period s \<noteq> Some (Finite 0) \<Longrightarrow>
   p \<noteq> Finite 0"
  by (auto simp: carrier_params_def and_then_Inr_iff attr_Inr_iff Let_def split: if_splits)

lemma set_frequency_exact_period_nonzero:
  "set_frequency_exact s freq = Returns s' \<Longrightarrow> priv_time_period s' \<noteq> Some (Finite 0)"
  by (auto simp: set_frequency_exact_def Let_def split: option.splits if_splits)

text \<open>
  C4. The claim: for the waveform type 5 (TTL) each tick synthesizes what Square would.
  The chain of \<^verbatim>\<open>if\<close> statements of \<^verbatim>\<open>run\<close> has no branch for type 5, so \<^verbatim>\<open>voltage\<close> is
  still unbound when it is read: the first iteration of a TTL generator ends the thread
  with \<^verbatim>\<open>UnboundLocalError\<close> and publishes nothing, where the Square generator with
  the same parameters publishes 5 V.
\<close>

theorem ttl_first_tick_crashes:
  "run (object_of (init (Num (PInt 5)) (Num (PInt 1000)) (Num (PInt 5)))) 0
       [(object_of (init (Num (PInt 5)) (Num (PInt 1000)) (Num (PInt 5))), 250000)]
     = ([], Crashed UnboundLocalError)
   \<and> run (object_of (init (Num (PInt 1)) (Num (PInt 1000)) (Num (PInt 5)))) 0 [((object_of (init (Num (PInt 1)) (Num (PInt 1000)) (Num (PInt 5)))), 250000)]
     = ([SetVoltageAll 5 0, Sleep (1 / 500000)],
        Running \<lparr>old_time_offset = Offset (1 / 4000), voltage = Some 1\<rparr>)"
  by (simp add: ttl_generator_explicit square_generator_explicit run_def iteration_def
      sample_def carrier_params_def synthesize_def modulate_def type_prop_def
      SAMPLING_TIME_INTERVAL_def time_mod_quarter time_mod_zero del: time_mod.simps)

text \<open>For type 5, synthesis leaves \<^verbatim>\<open>voltage\<close> as it found it.\<close>

lemma synthesize_ttl: "synthesize 5 freq time_p cur v0 = Inr v0"
  by (simp add: synthesize_def)

subsection \<open>Modulation\<close>





subsection \<open>The loop\<close>

text \<open>
  C5, as stated: every iteration sleeps for \<open>period/500\<close>, whether or not it published.
  The call of \<^verbatim>\<open>time.sleep\<close> stands inside the \<^verbatim>\<open>if\<close> that guards the update. After the
  first iteration of the square-wave generator (\<open>square_first_iteration\<close>), an
  iteration that reads the clock one period later finds the offset unchanged: it
  publishes nothing and does not sleep.
\<close>

theorem iteration_without_publish_does_not_sleep:
  "iteration (object_of (init (Num (PInt 1)) (Num (PInt 1000)) (Num (PInt 5)))) 1250000 \<lparr>old_time_offset = Offset (1 / 4000), voltage = Some 1\<rparr>
     = Continue [] \<lparr>old_time_offset = Offset (1 / 4000), voltage = Some 1\<rparr>"
  by (simp add: square_generator_explicit iteration_def SAMPLING_TIME_INTERVAL_def seconds_def)

text \<open>
  C5, amended: an iteration that completes either publishes once and then sleeps for
  \<open>period/500\<close> (\<^verbatim>\<open>SAMPLING_TIME_INTERVAL\<close>), or it publishes nothing, does not sleep and
  leaves the locals of the loop as they were.
\<close>

theorem iteration_sleeps_exactly_after_publish:
  "iteration s now l = Continue evs l' \<Longrightarrow>
     (evs = [] \<and> l' = l)
   \<or> (\<exists>v d. evs = [SetVoltageAll v 0, Sleep d] \<and> SAMPLING_TIME_INTERVAL s = Inr (Finite d))"
  unfolding iteration_def
  by (auto split: sum.splits if_splits prod.splits elim!: py_sleep.elims
      simp: SAMPLING_TIME_INTERVAL_def)

theorem iteration_sleeps_exactly_after_publish_witness:
  "iteration (object_of (init (Num (PInt 1)) (Num (PInt 1000)) (Num (PInt 5)))) 250000 \<lparr>old_time_offset = Offset (- (1 / 1000)), voltage = None\<rparr>
     = Continue [SetVoltageAll 5 0, Sleep (1 / 500000)]
         \<lparr>old_time_offset = Offset (1 / 4000), voltage = Some 1\<rparr>
   \<and> (\<exists>v d. [SetVoltageAll 5 0, Sleep (1 / 500000)] = [SetVoltageAll v 0, Sleep d]
        \<and> SAMPLING_TIME_INTERVAL (object_of (init (Num (PInt 1)) (Num (PInt 1000)) (Num (PInt 5)))) = Inr (Finite d))"
  using iteration_sleeps_exactly_after_publish [OF square_first_iteration]
    square_first_iteration by simp

text \<open>The enable input is a field no part of \<^verbatim>\<open>run\<close> reads.\<close>

lemma carrier_params_enable:
  "carrier_params (s\<lparr>enable := e\<rparr>) m_t = carrier_params s m_t"
  by (simp add: carrier_params_def cong: if_cong)

lemma sample_enable: "sample (s\<lparr>enable := e\<rparr>) cur v0 = sample s cur v0"
  by (simp add: sample_def type_prop_def carrier_params_enable)

lemma iteration_enable: "iteration (s\<lparr>enable := e\<rparr>) now l = iteration s now l"
  by (simp add: iteration_def SAMPLING_TIME_INTERVAL_def sample_enable
      cong: if_cong sum.case_cong prod.case_cong)

lemma run_loop_enable:
  "list_all2 (\<lambda>(s1, t1) (s2, t2). t2 = t1 \<and> (\<exists>e. s2 = s1\<lparr>enable := e\<rparr>)) obs1 obs2 \<Longrightarrow>
     run_loop obs1 l = run_loop obs2 l"
proof (induction obs1 obs2 arbitrary: l rule: list_all2_induct)
  case Nil
  show ?case by simp
next
  case (Cons x xs y ys)
  obtain s1 t1 where x: "x = (s1, t1)" by (cases x)
  obtain s2 t2 where y: "y = (s2, t2)" by (cases y)
  from Cons.hyps(1) x y obtain e where e: "t2 = t1" "s2 = s1\<lparr>enable := e\<rparr>" by auto
  show ?case
    by (simp add: x y e Cons.IH iteration_enable split: sum.splits tick.splits bool.splits)
qed

text \<open>
  C8. Two runs of the thread body that take the same clock readings and see objects that
  differ in nothing but the level of the enable input, before the loop and at every
  iteration, cause the same events (the same voltages written to the output bus and the
  same sleeps) and end the same way.
\<close>

theorem run_independent_of_enable:
  "list_all2 (\<lambda>(s1, t1) (s2, t2). t2 = t1 \<and> (\<exists>e. s2 = s1\<lparr>enable := e\<rparr>)) obs1 obs2 \<Longrightarrow>
     run (s\<lparr>enable := lvl\<rparr>) now obs2 = run s now obs1"
  using run_loop_enable [of obs1 obs2] by (simp add: run_def split: sum.splits)

theorem run_independent_of_enable_witness:
  "list_all2 (\<lambda>(s1, t1) (s2, t2). t2 = t1 \<and> (\<exists>e. s2 = s1\<lparr>enable := e\<rparr>))
      [((object_of (init (Num (PInt 1)) (Num (PInt 1000)) (Num (PInt 5)))), 250000), ((object_of (init (Num (PInt 1)) (Num (PInt 1000)) (Num (PInt 5)))), 1250000)]
      [((object_of (init (Num (PInt 1)) (Num (PInt 1000)) (Num (PInt 5))))\<lparr>enable := 1\<rparr>, 250000), ((object_of (init (Num (PInt 1)) (Num (PInt 1000)) (Num (PInt 5))))\<lparr>enable := 0\<rparr>, 1250000)]
   \<and> run ((object_of (init (Num (PInt 1)) (Num (PInt 1000)) (Num (PInt 5))))\<lparr>enable := 1\<rparr>) 0 [((object_of (init (Num (PInt 1)) (Num (PInt 1000)) (Num (PInt 5))))\<lparr>enable := 1\<rparr>, 250000), ((object_of (init (Num (PInt 1)) (Num (PInt 1000)) (Num (PInt 5))))\<lparr>enable := 0\<rparr>, 1250000)]
     = run (object_of (init (Num (PInt 1)) (Num (PInt 1000)) (Num (PInt 5)))) 0 [((object_of (init (Num (PInt 1)) (Num (PInt 1000)) (Num (PInt 5)))), 250000), ((object_of (init (Num (PInt 1)) (Num (PInt 1000)) (Num (PInt 5)))), 1250000)]"
proof -
  have h: "list_all2 (\<lambda>(s1, t1) (s2, t2). t2 = t1 \<and> (\<exists>e. s2 = s1\<lparr>enable := e\<rparr>))
      [((object_of (init (Num (PInt 1)) (Num (PInt 1000)) (Num (PInt 5)))), 250000), ((object_of (init (Num (PInt 1)) (Num (PInt 1000)) (Num (PInt 5)))), 1250000)]
      [((object_of (init (Num (PInt 1)) (Num (PInt 1000)) (Num (PInt 5))))\<lparr>enable := 1\<rparr>, 250000), ((object_of (init (Num (PInt 1)) (Num (PInt 1000)) (Num (PInt 5))))\<lparr>enable := 0\<rparr>, 1250000)]"
    by auto
  from run_independent_of_enable [OF h, where s = "object_of (init (Num (PInt 1)) (Num (PInt 1000)) (Num (PInt 5)))" and lvl = 1 and now = 0] h
  show ?thesis by simp
qed

end
